theory Spec2Isabelle
  imports Complex_Main "HOL-Library.Log_Nat"
begin

section \<open>Qt controls of the napari Labels layer\<close>

text \<open>
  A shallow embedding of \<^verbatim>\<open>napari/_qt/layers/qt_labels_layer.py\<close>: the panel
  \<^verbatim>\<open>QtLabelsControls\<close>, which mirrors the properties of a Labels layer in Qt widgets,
  and the swatch \<^verbatim>\<open>QtColorBox\<close>. Widgets and the layer are records, handlers are
  functions from the state of the panel to a result that carries the new state, and a
  Python exception is a value of that result.
\<close>

subsection \<open>Python values and exceptions\<close>

text \<open>
  The numeric properties of the layer (\<^verbatim>\<open>selected_label\<close>, \<^verbatim>\<open>brush_size\<close>) hold a
  Python \<^verbatim>\<open>int\<close> or \<^verbatim>\<open>float\<close>. An \<^verbatim>\<open>int\<close> and a finite \<^verbatim>\<open>float\<close> are
  the rational number they denote; the three other floats are kept apart, because
  \<^verbatim>\<open>int()\<close> raises on them.
\<close>

datatype number = Finite rat | NaN | PosInf | NegInf

datatype error = ValueError string | OverflowError string

datatype 's result = Returned 's | Raised error 's

text \<open>The state a call ends in, whether it returned or raised.\<close>

fun state_of :: "'s result \<Rightarrow> 's" where
  "state_of (Returned s) = s"
| "state_of (Raised e s) = s"

fun raised :: "'s result \<Rightarrow> error option" where
  "raised (Returned s) = None"
| "raised (Raised e s) = Some e"

text \<open>
  Leaving a \<^verbatim>\<open>with\<close> block runs the exit action on the state on either path and
  lets the exception, if any, travel on.
\<close>

fun on_exit :: "('s \<Rightarrow> 's) \<Rightarrow> 's result \<Rightarrow> 's result" where
  "on_exit f (Returned s) = Returned (f s)"
| "on_exit f (Raised e s) = Raised e (f s)"

text \<open>The statements after a call run only when the call returned.\<close>

fun and_then :: "'s result \<Rightarrow> ('s \<Rightarrow> 's result) \<Rightarrow> 's result" where
  "and_then (Returned s) f = f s"
| "and_then (Raised e s) f = Raised e s"

text \<open>
  \<^verbatim>\<open>int(x)\<close> cuts the fractional part off, towards zero, and raises on a float that
  is not finite.
\<close>

definition trunc :: "rat \<Rightarrow> int" where
  "trunc q = (if 0 \<le> q then \<lfloor>q\<rfloor> else \<lceil>q\<rceil>)"

fun py_int :: "number \<Rightarrow> error + int" where
  "py_int (Finite q) = Inr (trunc q)"
| "py_int NaN = Inl (ValueError ''cannot convert float NaN to integer'')"
| "py_int PosInf = Inl (OverflowError ''cannot convert float infinity to integer'')"
| "py_int NegInf = Inl (OverflowError ''cannot convert float infinity to integer'')"

text \<open>\<^verbatim>\<open>np.clip(a, a_min, a_max)\<close> on integers, taken as mathematical integers.\<close>

definition np_clip :: "int \<Rightarrow> int \<Rightarrow> int \<Rightarrow> int" where
  "np_clip a a_min a_max = min (max a a_min) a_max"

subsection \<open>The layer\<close>

text \<open>
  Modelled from the spec: the enumeration \<^verbatim>\<open>Mode\<close> of
  \<^verbatim>\<open>napari/layers/labels/_constants.py\<close> is not among the sources. It has the four
  members the panel names; \<open>Unrecognized\<close> stands for every other value a mode event
  may carry (a member added to the enumeration later, named by its payload).
\<close>

datatype Mode = PAN_ZOOM | PICKER | PAINT | FILL | Unrecognized string

text \<open>
  The properties of the Labels layer the panel reads and writes. Each of the four
  \<open>blocked\<close> fields counts the blockers now active on the event emitter of that name
  (\<^verbatim>\<open>layer.events.selected_label.blocker()\<close> and its siblings).
\<close>

record Labels =
  mode :: Mode
  selected_label :: number
  brush_size :: number
  contiguous :: bool
  n_dimensional :: bool
  editable :: bool
  status :: string
  blocked_selected_label :: nat
  blocked_brush_size :: nat
  blocked_contiguous :: nat
  blocked_n_dimensional :: nat

subsection \<open>The widgets of the panel\<close>

text \<open>
  The four mode buttons are attributes of the panel, looked up by name
  (\<^verbatim>\<open>getattr(obj, wdg)\<close> in \<^verbatim>\<open>disable_with_opacity\<close>).
\<close>

datatype button_attr = panzoom_button | pick_button | paint_button | fill_button

record QtModeRadioButton =
  checked :: bool
  enabled :: bool
  dimmed :: bool

text \<open>The mode each button is constructed with in \<^verbatim>\<open>__init__\<close>.\<close>

fun button_mode :: "button_attr \<Rightarrow> Mode" where
  "button_mode panzoom_button = PAN_ZOOM"
| "button_mode pick_button = PICKER"
| "button_mode paint_button = PAINT"
| "button_mode fill_button = FILL"

datatype focus = Focus_elsewhere | Focus_selectionSpinBox | Focus_panel

text \<open>
  The handlers of the panel that a signal or an event can enter. The field \<open>entered\<close>
  of the state below records their entries in order; no handler reads it.
\<close>

datatype handler =
    H_on_selection_change
  | H_changeSelection int
  | H_on_brush_size_change
  | H_changeSize int
  | H_on_contig_change
  | H_change_contig int
  | H_on_n_dim_change
  | H_change_ndim int

record QtLabelsControls =
  layer :: Labels
  selectionSpinBox :: int
  brushSizeSlider :: int
  contigCheckBox :: bool
  ndimCheckBox :: bool
  buttons :: "button_attr \<Rightarrow> QtModeRadioButton"
  focus :: focus
  colorbox_updates :: nat
  entered :: "handler list"

definition enter :: "handler \<Rightarrow> QtLabelsControls \<Rightarrow> QtLabelsControls" where
  "enter h s = s\<lparr>entered := entered s @ [h]\<rparr>"

text \<open>
  The ranges \<^verbatim>\<open>__init__\<close> gives the spin box (\<^verbatim>\<open>setMinimum(0)\<close>,
  \<^verbatim>\<open>setMaximum(2147483647)\<close>) and the slider (\<^verbatim>\<open>setMinimum(1)\<close>,
  \<^verbatim>\<open>setMaximum(40)\<close>). Qt's \<^verbatim>\<open>setValue\<close> forces its argument into the range of
  the widget.
\<close>

definition QSpinBox_bound :: "int \<Rightarrow> int" where
  "QSpinBox_bound v = min (max v 0) 2147483647"

definition QSlider_bound :: "int \<Rightarrow> int" where
  "QSlider_bound v = min (max v 1) 40"

text \<open>
  \<^verbatim>\<open>setValue\<close> of the Qt binding takes a C \<^verbatim>\<open>int\<close>. A Python integer outside
  the range of a C \<^verbatim>\<open>int\<close> is refused with \<^verbatim>\<open>OverflowError\<close> before Qt sees it,
  and the widget is not touched; it is never forced into the range of the widget.
\<close>

definition fits_C_int :: "int \<Rightarrow> bool" where
  "fits_C_int n = (- 2147483648 \<le> n \<and> n \<le> 2147483647)"

text \<open>\<^verbatim>\<open>Qt.Unchecked\<close>, \<^verbatim>\<open>Qt.PartiallyChecked\<close> and \<^verbatim>\<open>Qt.Checked\<close>.\<close>

definition Qt_Unchecked :: int where "Qt_Unchecked = 0"
definition Qt_PartiallyChecked :: int where "Qt_PartiallyChecked = 1"
definition Qt_Checked :: int where "Qt_Checked = 2"

subsection \<open>The layer's event emitters and setters\<close>

text \<open>
  Modelled from the spec: the event emitters of the layer (\<^verbatim>\<open>napari/utils/event.py\<close>)
  are not among the sources. By the spec each property has a change-notification stream
  with a temporary-suppression mechanism: entering \<^verbatim>\<open>blocker()\<close> suppresses the
  notification until the \<^verbatim>\<open>with\<close> block is left. An emitter is the number of its
  active blockers, and entering a blocker adds one.
\<close>

definition enter_blocker :: "nat \<Rightarrow> nat" where
  "enter_blocker n = Suc n"

text \<open>
  Modelled from the spec: leaving the \<^verbatim>\<open>with\<close> block of a blocker of an emitter (not
  among the sources) releases it on every path.
\<close>

definition exit_blocker :: "nat \<Rightarrow> nat" where
  "exit_blocker n = n - 1"

text \<open>
  Modelled from the spec: an emitter (not among the sources) calls the callbacks
  connected to it exactly when no blocker is active.
\<close>

definition notifies :: "nat \<Rightarrow> bool" where
  "notifies n = (n = 0)"

text \<open>
  Modelled from the spec: the setter of \<^verbatim>\<open>Labels.selected_label\<close> is not among the
  sources. By the spec a write mutates the layer's state and then triggers the layer's
  own change notification; this is the mutation, and the handlers below run the
  callbacks after it when the emitter notifies.
\<close>

definition store_selected_label :: "number \<Rightarrow> QtLabelsControls \<Rightarrow> QtLabelsControls" where
  "store_selected_label v s = s\<lparr>layer := (layer s)\<lparr>selected_label := v\<rparr>\<rparr>"

text \<open>
  Modelled from the spec: the setter of \<^verbatim>\<open>Labels.brush_size\<close> (not among the
  sources), as for \<^verbatim>\<open>selected_label\<close>.
\<close>

definition store_brush_size :: "number \<Rightarrow> QtLabelsControls \<Rightarrow> QtLabelsControls" where
  "store_brush_size v s = s\<lparr>layer := (layer s)\<lparr>brush_size := v\<rparr>\<rparr>"

text \<open>
  Modelled from the spec: the setter of \<^verbatim>\<open>Labels.contiguous\<close> (not among the
  sources), as for \<^verbatim>\<open>selected_label\<close>.
\<close>

definition store_contiguous :: "bool \<Rightarrow> QtLabelsControls \<Rightarrow> QtLabelsControls" where
  "store_contiguous v s = s\<lparr>layer := (layer s)\<lparr>contiguous := v\<rparr>\<rparr>"

text \<open>
  Modelled from the spec: the setter of \<^verbatim>\<open>Labels.n_dimensional\<close> (not among the
  sources), as for \<^verbatim>\<open>selected_label\<close>.
\<close>

definition store_n_dimensional :: "bool \<Rightarrow> QtLabelsControls \<Rightarrow> QtLabelsControls" where
  "store_n_dimensional v s = s\<lparr>layer := (layer s)\<lparr>n_dimensional := v\<rparr>\<rparr>"

lemmas emitter_defs =
  enter_blocker_def exit_blocker_def notifies_def
  store_selected_label_def store_brush_size_def store_contiguous_def store_n_dimensional_def

text \<open>
  Entering and leaving \<^verbatim>\<open>with self.layer.events.selected_label.blocker():\<close> and its
  three siblings in the inbound handlers.
\<close>

definition block_selected_label :: "QtLabelsControls \<Rightarrow> QtLabelsControls" where
  "block_selected_label s =
     s\<lparr>layer := (layer s)\<lparr>blocked_selected_label :=
                              enter_blocker (blocked_selected_label (layer s))\<rparr>\<rparr>"

definition unblock_selected_label :: "QtLabelsControls \<Rightarrow> QtLabelsControls" where
  "unblock_selected_label s =
     s\<lparr>layer := (layer s)\<lparr>blocked_selected_label :=
                              exit_blocker (blocked_selected_label (layer s))\<rparr>\<rparr>"

definition block_brush_size :: "QtLabelsControls \<Rightarrow> QtLabelsControls" where
  "block_brush_size s =
     s\<lparr>layer := (layer s)\<lparr>blocked_brush_size := enter_blocker (blocked_brush_size (layer s))\<rparr>\<rparr>"

definition unblock_brush_size :: "QtLabelsControls \<Rightarrow> QtLabelsControls" where
  "unblock_brush_size s =
     s\<lparr>layer := (layer s)\<lparr>blocked_brush_size := exit_blocker (blocked_brush_size (layer s))\<rparr>\<rparr>"

definition block_contiguous :: "QtLabelsControls \<Rightarrow> QtLabelsControls" where
  "block_contiguous s =
     s\<lparr>layer := (layer s)\<lparr>blocked_contiguous := enter_blocker (blocked_contiguous (layer s))\<rparr>\<rparr>"

definition unblock_contiguous :: "QtLabelsControls \<Rightarrow> QtLabelsControls" where
  "unblock_contiguous s =
     s\<lparr>layer := (layer s)\<lparr>blocked_contiguous := exit_blocker (blocked_contiguous (layer s))\<rparr>\<rparr>"

definition block_n_dimensional :: "QtLabelsControls \<Rightarrow> QtLabelsControls" where
  "block_n_dimensional s =
     s\<lparr>layer := (layer s)\<lparr>blocked_n_dimensional :=
                              enter_blocker (blocked_n_dimensional (layer s))\<rparr>\<rparr>"

definition unblock_n_dimensional :: "QtLabelsControls \<Rightarrow> QtLabelsControls" where
  "unblock_n_dimensional s =
     s\<lparr>layer := (layer s)\<lparr>blocked_n_dimensional :=
                              exit_blocker (blocked_n_dimensional (layer s))\<rparr>\<rparr>"

lemmas blocker_defs =
  block_selected_label_def unblock_selected_label_def block_brush_size_def unblock_brush_size_def
  block_contiguous_def unblock_contiguous_def block_n_dimensional_def unblock_n_dimensional_def

subsection \<open>Selected label: the layer's event and the spin box's signal\<close>

text \<open>
  \<^verbatim>\<open>_on_selection_change\<close> (lines 248 to 258) and \<^verbatim>\<open>changeSelection\<close> (lines 200
  to 210). The leading underscore of a Python name is dropped.

  \<^verbatim>\<open>__init__\<close> connects \<^verbatim>\<open>changeSelection\<close> to the spin box's \<^verbatim>\<open>valueChanged\<close>
  (line 81), which Qt emits when \<^verbatim>\<open>setValue\<close> changes the value of the spin box; the
  blocker of the handler is on the layer's emitter, not on this signal. It connects
  \<^verbatim>\<open>_on_selection_change\<close> to the layer's \<^verbatim>\<open>selected_label\<close> event (line 64), and
  the colour box connects \<^verbatim>\<open>update_color\<close> to it (line 328), which asks for a
  repaint. The handler and the slot therefore call each other; the blocker ends the
  chain, which is what the termination proof uses. \<^verbatim>\<open>clearFocus()\<close> on the spin
  box followed by \<^verbatim>\<open>setFocus()\<close> on the panel leaves the focus on the panel.
\<close>

function on_selection_change :: "QtLabelsControls \<Rightarrow> QtLabelsControls result"
  and changeSelection :: "int \<Rightarrow> QtLabelsControls \<Rightarrow> QtLabelsControls result"
where
  "on_selection_change s =
     on_exit unblock_selected_label
       (case py_int (selected_label (layer s)) of
          Inl e \<Rightarrow> Raised e (block_selected_label (enter H_on_selection_change s))
        | Inr n \<Rightarrow>
            (if \<not> fits_C_int n
             then Raised (OverflowError ''argument 1 overflowed'')
                    (block_selected_label (enter H_on_selection_change s))
             else if QSpinBox_bound n = selectionSpinBox s
             then Returned (block_selected_label (enter H_on_selection_change s))
             else changeSelection (QSpinBox_bound n)
                    ((block_selected_label (enter H_on_selection_change s))
                       \<lparr>selectionSpinBox := QSpinBox_bound n\<rparr>)))"
| "changeSelection v s =
     and_then
       (if notifies (blocked_selected_label (layer s))
        then and_then
               (on_selection_change
                  (store_selected_label (Finite (of_int v)) (enter (H_changeSelection v) s)))
               (\<lambda>t. Returned (t\<lparr>colorbox_updates := Suc (colorbox_updates t)\<rparr>))
        else Returned (store_selected_label (Finite (of_int v)) (enter (H_changeSelection v) s)))
       (\<lambda>t. Returned (t\<lparr>focus := Focus_panel\<rparr>))"
  by pat_completeness auto
termination
  by (relation "measure (\<lambda>x. case x of
          Inl s \<Rightarrow> 1
        | Inr (v, s) \<Rightarrow> (if notifies (blocked_selected_label (layer s)) then 2 else 0))")
     (auto simp: block_selected_label_def enter_def emitter_defs)

declare on_selection_change.simps [simp del]
declare changeSelection.simps [simp del]

subsection \<open>Brush size: the layer's event and the slider's signal\<close>

text \<open>
  \<^verbatim>\<open>_on_brush_size_change\<close> (lines 260 to 271) and \<^verbatim>\<open>changeSize\<close> (lines 212 to
  220), connected as for the selected label: \<^verbatim>\<open>changeSize\<close> to the slider's
  \<^verbatim>\<open>valueChanged\<close> (line 90), \<^verbatim>\<open>_on_brush_size_change\<close> to the layer's
  \<^verbatim>\<open>brush_size\<close> event (line 65).
\<close>

function on_brush_size_change :: "QtLabelsControls \<Rightarrow> QtLabelsControls result"
  and changeSize :: "int \<Rightarrow> QtLabelsControls \<Rightarrow> QtLabelsControls result"
where
  "on_brush_size_change s =
     on_exit unblock_brush_size
       (case py_int (brush_size (layer s)) of
          Inl e \<Rightarrow> Raised e (block_brush_size (enter H_on_brush_size_change s))
        | Inr n \<Rightarrow>
            (if QSlider_bound (np_clip n 1 40) = brushSizeSlider s
             then Returned (block_brush_size (enter H_on_brush_size_change s))
             else changeSize (QSlider_bound (np_clip n 1 40))
                    ((block_brush_size (enter H_on_brush_size_change s))
                       \<lparr>brushSizeSlider := QSlider_bound (np_clip n 1 40)\<rparr>)))"
| "changeSize v s =
     (if notifies (blocked_brush_size (layer s))
      then on_brush_size_change (store_brush_size (Finite (of_int v)) (enter (H_changeSize v) s))
      else Returned (store_brush_size (Finite (of_int v)) (enter (H_changeSize v) s)))"
  by pat_completeness auto
termination
  by (relation "measure (\<lambda>x. case x of
          Inl s \<Rightarrow> 1
        | Inr (v, s) \<Rightarrow> (if notifies (blocked_brush_size (layer s)) then 2 else 0))")
     (auto simp: block_brush_size_def enter_def emitter_defs)

declare on_brush_size_change.simps [simp del]
declare changeSize.simps [simp del]

subsection \<open>The two check boxes\<close>

text \<open>
  \<^verbatim>\<open>_on_contig_change\<close> (lines 284 to 293) with \<^verbatim>\<open>change_contig\<close> (lines 222 to
  233), and \<^verbatim>\<open>_on_n_dim_change\<close> (lines 273 to 282) with \<^verbatim>\<open>change_ndim\<close> (lines
  235 to 246). \<^verbatim>\<open>setChecked\<close> on a check box emits \<^verbatim>\<open>stateChanged\<close> with the new
  state when the box changes; the two slots are connected to it (lines 96 and 102), and
  the two handlers to the layer's events (lines 66 and 67).
\<close>

function on_contig_change :: "QtLabelsControls \<Rightarrow> QtLabelsControls result"
  and change_contig :: "int \<Rightarrow> QtLabelsControls \<Rightarrow> QtLabelsControls result"
where
  "on_contig_change s =
     on_exit unblock_contiguous
       (if contiguous (layer s) = contigCheckBox s
        then Returned (block_contiguous (enter H_on_contig_change s))
        else change_contig (if contiguous (layer s) then Qt_Checked else Qt_Unchecked)
               ((block_contiguous (enter H_on_contig_change s))
                  \<lparr>contigCheckBox := contiguous (layer s)\<rparr>))"
| "change_contig state s =
     (if notifies (blocked_contiguous (layer s))
      then on_contig_change
             (if state = Qt_Checked
              then store_contiguous True (enter (H_change_contig state) s)
              else store_contiguous False (enter (H_change_contig state) s))
      else Returned
             (if state = Qt_Checked
              then store_contiguous True (enter (H_change_contig state) s)
              else store_contiguous False (enter (H_change_contig state) s)))"
  by pat_completeness auto
termination
  by (relation "measure (\<lambda>x. case x of
          Inl s \<Rightarrow> 1
        | Inr (v, s) \<Rightarrow> (if notifies (blocked_contiguous (layer s)) then 2 else 0))")
     (auto simp: block_contiguous_def enter_def emitter_defs)

declare on_contig_change.simps [simp del]
declare change_contig.simps [simp del]

function on_n_dim_change :: "QtLabelsControls \<Rightarrow> QtLabelsControls result"
  and change_ndim :: "int \<Rightarrow> QtLabelsControls \<Rightarrow> QtLabelsControls result"
where
  "on_n_dim_change s =
     on_exit unblock_n_dimensional
       (if n_dimensional (layer s) = ndimCheckBox s
        then Returned (block_n_dimensional (enter H_on_n_dim_change s))
        else change_ndim (if n_dimensional (layer s) then Qt_Checked else Qt_Unchecked)
               ((block_n_dimensional (enter H_on_n_dim_change s))
                  \<lparr>ndimCheckBox := n_dimensional (layer s)\<rparr>))"
| "change_ndim state s =
     (if notifies (blocked_n_dimensional (layer s))
      then on_n_dim_change
             (if state = Qt_Checked
              then store_n_dimensional True (enter (H_change_ndim state) s)
              else store_n_dimensional False (enter (H_change_ndim state) s))
      else Returned
             (if state = Qt_Checked
              then store_n_dimensional True (enter (H_change_ndim state) s)
              else store_n_dimensional False (enter (H_change_ndim state) s)))"
  by pat_completeness auto
termination
  by (relation "measure (\<lambda>x. case x of
          Inl s \<Rightarrow> 1
        | Inr (v, s) \<Rightarrow> (if notifies (blocked_n_dimensional (layer s)) then 2 else 0))")
     (auto simp: block_n_dimensional_def enter_def emitter_defs)

declare on_n_dim_change.simps [simp del]
declare change_ndim.simps [simp del]

subsection \<open>The mode buttons\<close>

text \<open>
  \<^verbatim>\<open>__init__\<close> adds the four buttons to one \<^verbatim>\<open>QButtonGroup\<close> (lines 119 to 123). A
  button group is exclusive: checking one member unchecks the other members, and the
  checked member cannot be unchecked by \<^verbatim>\<open>setChecked(False)\<close>. What a button
  does when it is toggled is in \<^verbatim>\<open>QtModeRadioButton\<close>, which is not among the
  sources, and is left out.
\<close>

definition button_group :: "button_attr list" where
  "button_group = [panzoom_button, paint_button, pick_button, fill_button]"

definition setChecked :: "button_attr \<Rightarrow> bool \<Rightarrow> QtLabelsControls \<Rightarrow> QtLabelsControls" where
  "setChecked b c s =
     (if c
      then s\<lparr>buttons := (\<lambda>x. if x = b then (buttons s x)\<lparr>checked := True\<rparr>
                              else if b \<in> set button_group \<and> x \<in> set button_group
                                   then (buttons s x)\<lparr>checked := False\<rparr>
                                   else buttons s x)\<rparr>
      else if b \<in> set button_group then s
           else s\<lparr>buttons := (buttons s)(b := (buttons s b)\<lparr>checked := False\<rparr>)\<rparr>)"

record mode_event =
  event_mode :: Mode

definition on_mode_change :: "mode_event \<Rightarrow> QtLabelsControls \<Rightarrow> QtLabelsControls result" where
  "on_mode_change event s =
     (if event_mode event = PAN_ZOOM then Returned (setChecked panzoom_button True s)
      else if event_mode event = PICKER then Returned (setChecked pick_button True s)
      else if event_mode event = PAINT then Returned (setChecked paint_button True s)
      else if event_mode event = FILL then Returned (setChecked fill_button True s)
      else Raised (ValueError ''Mode not recognized'') s)"

text \<open>
  Modelled from the spec: \<^verbatim>\<open>disable_with_opacity\<close> of \<^verbatim>\<open>napari/_qt/utils.py\<close> is not
  among the sources. By the spec, \<^verbatim>\<open>editable = false\<close> disables (visually dims and
  blocks input on) the named controls and \<^verbatim>\<open>editable = true\<close> enables them again: each
  widget named in the list is enabled exactly when the flag holds, and dimmed otherwise.
\<close>

fun disable_with_opacity ::
  "QtLabelsControls \<Rightarrow> button_attr list \<Rightarrow> bool \<Rightarrow> QtLabelsControls" where
  "disable_with_opacity obj [] flag = obj"
| "disable_with_opacity obj (wdg # widget_list) flag =
     disable_with_opacity
       (obj\<lparr>buttons := (buttons obj)(wdg := (buttons obj wdg)\<lparr>enabled := flag, dimmed := \<not> flag\<rparr>)\<rparr>)
       widget_list flag"

definition on_editable_change :: "QtLabelsControls \<Rightarrow> QtLabelsControls result" where
  "on_editable_change s =
     Returned (disable_with_opacity s [pick_button, paint_button, fill_button] (editable (layer s)))"

subsection \<open>Pointer movement\<close>

text \<open>
  \<^verbatim>\<open>str\<close> of a mode is decided by the enumeration, which is not among the sources; it
  is a parameter. The event is not read.
\<close>

definition mouseMoveEvent ::
  "(Mode \<Rightarrow> string) \<Rightarrow> 'e \<Rightarrow> QtLabelsControls \<Rightarrow> QtLabelsControls result" where
  "mouseMoveEvent str event s = Returned (s\<lparr>layer := (layer s)\<lparr>status := str (mode (layer s))\<rparr>\<rparr>)"

subsection \<open>Construction of the panel\<close>

text \<open>
  The widgets as \<^verbatim>\<open>__init__\<close> creates them (a spin box starts at 0, the slider at its
  minimum 1, the check boxes unchecked, the pan/zoom button checked), and the five
  inbound handlers \<^verbatim>\<open>__init__\<close> calls, in its order.
\<close>

definition fresh_controls :: "Labels \<Rightarrow> QtLabelsControls" where
  "fresh_controls lay =
     \<lparr>layer = lay, selectionSpinBox = 0, brushSizeSlider = 1,
      contigCheckBox = False, ndimCheckBox = False,
      buttons = (\<lambda>b. \<lparr>checked = (b = panzoom_button), enabled = True, dimmed = False\<rparr>),
      focus = Focus_elsewhere, colorbox_updates = 0, entered = []\<rparr>"

definition init :: "Labels \<Rightarrow> QtLabelsControls result" where
  "init lay =
     and_then (on_selection_change (fresh_controls lay)) (\<lambda>s.
     and_then (on_brush_size_change s) (\<lambda>s.
     and_then (on_contig_change s) (\<lambda>s.
     and_then (on_n_dim_change s) on_editable_change)))"

subsection \<open>The colour box\<close>

text \<open>
  \<^verbatim>\<open>QColor(*list(color))\<close> takes the channels in order. The painter keeps its pen and
  brush, and every rectangle it draws with the pen and brush of that moment.
\<close>

datatype QColor = QColor "int list"

record rect =
  rect_pen :: QColor
  rect_brush :: "QColor option"
  rect_x :: int
  rect_y :: int
  rect_w :: int
  rect_h :: int

record QPainter =
  pen :: QColor
  brush :: "QColor option"
  drawn :: "rect list"

text \<open>A new painter has a black pen and no brush.\<close>

definition new_QPainter :: QPainter where
  "new_QPainter = \<lparr>pen = QColor [0, 0, 0], brush = None, drawn = []\<rparr>"

definition setPen :: "QColor \<Rightarrow> QPainter \<Rightarrow> QPainter" where
  "setPen c p = p\<lparr>pen := c\<rparr>"

definition setBrush :: "QColor \<Rightarrow> QPainter \<Rightarrow> QPainter" where
  "setBrush c p = p\<lparr>brush := Some c\<rparr>"

definition drawRect :: "int \<Rightarrow> int \<Rightarrow> int \<Rightarrow> int \<Rightarrow> QPainter \<Rightarrow> QPainter" where
  "drawRect x y w h p =
     p\<lparr>drawn := drawn p @
          [\<lparr>rect_pen = pen p, rect_brush = brush p, rect_x = x, rect_y = y, rect_w = w, rect_h = h\<rparr>]\<rparr>"

text \<open>\<^verbatim>\<open>self._height\<close>, and \<^verbatim>\<open>range(n)\<close> as the list a \<^verbatim>\<open>for\<close> loop runs through.\<close>

definition height :: int where
  "height = 24"

definition py_range :: "int \<Rightarrow> int list" where
  "py_range n = map int [0..<nat n]"

text \<open>The body of the inner loop, for one \<open>i\<close> and one \<open>j\<close>.\<close>

definition paint_cell :: "int \<Rightarrow> int \<Rightarrow> QPainter \<Rightarrow> QPainter" where
  "paint_cell i j painter =
     drawRect (i * 4) (j * 4) 5 5
       (if (i mod 2 = 0 \<and> j mod 2 = 0) \<or> (i mod 2 = 1 \<and> j mod 2 = 1)
        then setBrush (QColor [230, 230, 230]) (setPen (QColor [230, 230, 230]) painter)
        else setBrush (QColor [25, 25, 25]) (setPen (QColor [25, 25, 25]) painter))"

text \<open>
  The selected colour is a numpy array of floats. A float operation gives the exact
  result rounded to the format of the array, so an array is its items, each the
  rational number the float denotes, together with the rounding of its format. The
  channels of a colour are between 0 and 1, so a product with 255 does not overflow.
\<close>

record ndarray =
  dtype_round :: "rat \<Rightarrow> rat"
  items :: "rat list"

text \<open>\<^verbatim>\<open>k * a\<close> for a Python number \<open>k\<close>: every product is rounded to the format.\<close>

definition scalar_times :: "rat \<Rightarrow> ndarray \<Rightarrow> ndarray" where
  "scalar_times k a = a\<lparr>items := map (\<lambda>x. dtype_round a (k * x)) (items a)\<rparr>"

text \<open>\<^verbatim>\<open>a.astype(int)\<close> cuts the fractional part of every item off.\<close>

definition astype_int :: "ndarray \<Rightarrow> int list" where
  "astype_int a = map trunc (items a)"

definition paintEvent :: "ndarray option \<Rightarrow> QPainter" where
  "paintEvent selected_color =
     (case selected_color of
        None \<Rightarrow>
          fold (\<lambda>i. fold (\<lambda>j. paint_cell i j) (py_range (height div 4)))
            (py_range (height div 4)) new_QPainter
      | Some c \<Rightarrow>
          drawRect 0 0 height height
            (setBrush (QColor (astype_int (scalar_times 255 c)))
               (setPen (QColor (astype_int (scalar_times 255 c))) new_QPainter)))"

subsection \<open>The two float formats\<close>

text \<open>
  Rounding to the nearest float of a binary format with \<open>p\<close> significant bits and
  least normal exponent \<open>emin\<close>, ties to the even significand, as IEEE 754 prescribes:
  \<open>float64\<close> has 53 bits and \<open>emin = -1022\<close>, \<open>float32\<close> has 24 bits and
  \<open>emin = -126\<close>. The largest exponent is left out: no number here comes near it.
\<close>

definition round_half_even :: "rat \<Rightarrow> int" where
  "round_half_even m =
     (if m - of_int \<lfloor>m\<rfloor> < 1 / 2 then \<lfloor>m\<rfloor>
      else if 1 / 2 < m - of_int \<lfloor>m\<rfloor> then \<lfloor>m\<rfloor> + 1
      else if even \<lfloor>m\<rfloor> then \<lfloor>m\<rfloor> else \<lfloor>m\<rfloor> + 1)"

text \<open>The exponent \<open>e\<close> with \<open>2 ^ e \<le> q < 2 ^ (e + 1)\<close>, for a positive \<open>q\<close>.\<close>

definition floor_log2 :: "rat \<Rightarrow> int" where
  "floor_log2 q =
     (let k = bitlen (fst (quotient_of q)) - bitlen (snd (quotient_of q))
      in if 2 powi k \<le> q then k else k - 1)"

definition round_binary :: "nat \<Rightarrow> int \<Rightarrow> rat \<Rightarrow> rat" where
  "round_binary p emin q =
     (if q = 0 then 0
      else sgn q
           * of_int (round_half_even (\<bar>q\<bar> / 2 powi (max (floor_log2 \<bar>q\<bar>) emin - int p + 1)))
           * 2 powi (max (floor_log2 \<bar>q\<bar>) emin - int p + 1))"

definition float64 :: "rat \<Rightarrow> rat" where
  "float64 = round_binary 53 (- 1022)"

definition float32 :: "rat \<Rightarrow> rat" where
  "float32 = round_binary 24 (- 126)"

text \<open>\<^verbatim>\<open>np.array(xs, dtype=np.float64)\<close> and \<^verbatim>\<open>np.array(xs, dtype=np.float32)\<close>.\<close>

definition float64_array :: "rat list \<Rightarrow> ndarray" where
  "float64_array xs = \<lparr>dtype_round = float64, items = map float64 xs\<rparr>"

definition float32_array :: "rat list \<Rightarrow> ndarray" where
  "float32_array xs = \<lparr>dtype_round = float32, items = map float32 xs\<rparr>"

subsection \<open>A constructed panel, and the spec's own wording\<close>

text \<open>
  An example layer, in pan/zoom mode with label 0 and brush size 10, and the panel
  \<^verbatim>\<open>__init__\<close> builds for it.
\<close>

definition example_layer :: Labels where
  "example_layer =
     \<lparr>mode = PAN_ZOOM, selected_label = Finite 0, brush_size = Finite 10,
      contiguous = True, n_dimensional = False, editable = True, status = [],
      blocked_selected_label = 0, blocked_brush_size = 0, blocked_contiguous = 0,
      blocked_n_dimensional = 0\<rparr>"

definition example_panel :: QtLabelsControls where
  "example_panel = state_of (init example_layer)"

text \<open>
  The spec's wording of the slider display, \<open>clamp(round-to-int(v), 1, 40)\<close>, and of the
  channels of the swatch, \<open>round(255 \<times> channel)\<close>, to be compared with what the handlers
  compute. \<^const>\<open>round\<close> rounds to the nearest integer.
\<close>

definition spec_slider_display :: "rat \<Rightarrow> int" where
  "spec_slider_display v = min (max (round v) 1) 40"

definition spec_channels :: "rat list \<Rightarrow> int list" where
  "spec_channels c = map (\<lambda>x. round (255 * x)) c"

text \<open>
  The rectangle of the checkerboard for the cell \<open>(i, j)\<close>: light when \<open>i\<close> and \<open>j\<close>
  have the same parity, dark otherwise, at \<open>(4i, 4j)\<close>.
\<close>

definition light :: QColor where
  "light = QColor [230, 230, 230]"

definition dark :: QColor where
  "dark = QColor [25, 25, 25]"

definition cell :: "int \<Rightarrow> int \<Rightarrow> rect" where
  "cell i j =
     \<lparr>rect_pen = (if i mod 2 = j mod 2 then light else dark),
      rect_brush = Some (if i mod 2 = j mod 2 then light else dark),
      rect_x = 4 * i, rect_y = 4 * j, rect_w = 5, rect_h = 5\<rparr>"

text \<open>The owner of the layer sets \<^verbatim>\<open>layer.editable\<close>.\<close>

definition set_editable :: "bool \<Rightarrow> QtLabelsControls \<Rightarrow> QtLabelsControls" where
  "set_editable b s = s\<lparr>layer := (layer s)\<lparr>editable := b\<rparr>\<rparr>"

section \<open>What the handlers compute\<close>

text \<open>
  Inside an inbound handler the blocker is active, so the slot that the widget's signal
  enters writes the layer and returns: the chain of calls has at most this depth.
\<close>

lemma changeSelection_blocked:
  "blocked_selected_label (layer s) \<noteq> 0 \<Longrightarrow>
   changeSelection v s =
     Returned ((enter (H_changeSelection v) s)
       \<lparr>layer := (layer s)\<lparr>selected_label := Finite (of_int v)\<rparr>, focus := Focus_panel\<rparr>)"
  by (simp add: changeSelection.simps emitter_defs enter_def)

lemma on_selection_change_eq:
  "on_selection_change s =
     (case py_int (selected_label (layer s)) of
        Inl e \<Rightarrow> Raised e (enter H_on_selection_change s)
      | Inr n \<Rightarrow>
          (if \<not> fits_C_int n
           then Raised (OverflowError ''argument 1 overflowed'') (enter H_on_selection_change s)
           else Returned (if QSpinBox_bound n = selectionSpinBox s
               then enter H_on_selection_change s
               else (enter (H_changeSelection (QSpinBox_bound n)) (enter H_on_selection_change s))
                 \<lparr>layer := (layer s)\<lparr>selected_label := Finite (of_int (QSpinBox_bound n))\<rparr>,
                  selectionSpinBox := QSpinBox_bound n, focus := Focus_panel\<rparr>)))"
  by (simp add: on_selection_change.simps changeSelection_blocked
      block_selected_label_def unblock_selected_label_def enter_def emitter_defs split: sum.split)

lemma changeSize_blocked:
  "blocked_brush_size (layer s) \<noteq> 0 \<Longrightarrow>
   changeSize v s =
     Returned ((enter (H_changeSize v) s)\<lparr>layer := (layer s)\<lparr>brush_size := Finite (of_int v)\<rparr>\<rparr>)"
  by (simp add: changeSize.simps emitter_defs enter_def)

lemma on_brush_size_change_eq:
  "on_brush_size_change s =
     (case py_int (brush_size (layer s)) of
        Inl e \<Rightarrow> Raised e (enter H_on_brush_size_change s)
      | Inr n \<Rightarrow>
          Returned (if np_clip n 1 40 = brushSizeSlider s
               then enter H_on_brush_size_change s
               else (enter (H_changeSize (np_clip n 1 40)) (enter H_on_brush_size_change s))
                 \<lparr>layer := (layer s)\<lparr>brush_size := Finite (of_int (np_clip n 1 40))\<rparr>,
                  brushSizeSlider := np_clip n 1 40\<rparr>))"
proof -
  have "QSlider_bound (np_clip n 1 40) = np_clip n 1 40" for n
    by (simp add: QSlider_bound_def np_clip_def)
  then show ?thesis
    by (simp add: on_brush_size_change.simps changeSize_blocked
        block_brush_size_def unblock_brush_size_def enter_def emitter_defs split: sum.split)
qed

lemma change_contig_blocked:
  "blocked_contiguous (layer s) \<noteq> 0 \<Longrightarrow>
   change_contig state s =
     Returned ((enter (H_change_contig state) s)
       \<lparr>layer := (layer s)\<lparr>contiguous := (state = Qt_Checked)\<rparr>\<rparr>)"
  by (simp add: change_contig.simps emitter_defs enter_def)

lemma on_contig_change_eq:
  "on_contig_change s =
     Returned (if contiguous (layer s) = contigCheckBox s
               then enter H_on_contig_change s
               else (enter (H_change_contig (if contiguous (layer s) then Qt_Checked else Qt_Unchecked))
                      (enter H_on_contig_change s))
                 \<lparr>contigCheckBox := contiguous (layer s)\<rparr>)"
  by (simp add: on_contig_change.simps change_contig_blocked
      block_contiguous_def unblock_contiguous_def enter_def emitter_defs Qt_Checked_def
      Qt_Unchecked_def)

lemma change_ndim_blocked:
  "blocked_n_dimensional (layer s) \<noteq> 0 \<Longrightarrow>
   change_ndim state s =
     Returned ((enter (H_change_ndim state) s)
       \<lparr>layer := (layer s)\<lparr>n_dimensional := (state = Qt_Checked)\<rparr>\<rparr>)"
  by (simp add: change_ndim.simps emitter_defs enter_def)

lemma on_n_dim_change_eq:
  "on_n_dim_change s =
     Returned (if n_dimensional (layer s) = ndimCheckBox s
               then enter H_on_n_dim_change s
               else (enter (H_change_ndim (if n_dimensional (layer s) then Qt_Checked else Qt_Unchecked))
                      (enter H_on_n_dim_change s))
                 \<lparr>ndimCheckBox := n_dimensional (layer s)\<rparr>)"
  by (simp add: on_n_dim_change.simps change_ndim_blocked
      block_n_dimensional_def unblock_n_dimensional_def enter_def emitter_defs Qt_Checked_def
      Qt_Unchecked_def)

text \<open>The constructed panel, field by field.\<close>

lemma example_panel_eq:
  "example_panel =
     \<lparr>layer = example_layer, selectionSpinBox = 0, brushSizeSlider = 10,
      contigCheckBox = True, ndimCheckBox = False,
      buttons = (\<lambda>b. \<lparr>checked = (b = panzoom_button), enabled = True, dimmed = False\<rparr>),
      focus = Focus_elsewhere, colorbox_updates = 0,
      entered = [H_on_selection_change, H_on_brush_size_change, H_changeSize 10,
                 H_on_contig_change, H_change_contig 2, H_on_n_dim_change]\<rparr>"
  by (auto simp add: example_panel_def init_def fresh_controls_def example_layer_def
      on_selection_change_eq on_brush_size_change_eq on_contig_change_eq on_n_dim_change_eq
      on_editable_change_def trunc_def QSpinBox_bound_def fits_C_int_def np_clip_def enter_def
      Qt_Checked_def fun_eq_iff)

text \<open>
  \<^const>\<open>trunc\<close> is truncation towards zero: the magnitude never grows, it falls short
  of the argument by less than one, and the sign is kept.
\<close>

lemma trunc_towards_zero:
  "\<bar>of_int (trunc q)\<bar> \<le> \<bar>q\<bar> \<and> \<bar>q\<bar> < \<bar>of_int (trunc q) :: rat\<bar> + 1 \<and>
   (0 \<le> q \<longrightarrow> 0 \<le> trunc q) \<and> (q \<le> 0 \<longrightarrow> trunc q \<le> 0)"
proof (cases "0 \<le> q")
  case True
  have "of_int \<lfloor>q\<rfloor> \<le> q" "q < of_int \<lfloor>q\<rfloor> + 1" "0 \<le> \<lfloor>q\<rfloor>"
    using True by (simp_all add: floor_less_iff) linarith
  then show ?thesis
    using True by (auto simp: trunc_def)
next
  case False
  have "q \<le> of_int \<lceil>q\<rceil>" "of_int \<lceil>q\<rceil> < q + 1" "\<lceil>q\<rceil> \<le> 0"
    using False by (simp_all add: ceiling_le_iff) linarith
  then show ?thesis
    using False by (auto simp: trunc_def)
qed

lemma button_attr_cases:
  "b = panzoom_button \<or> b = pick_button \<or> b = paint_button \<or> b = fill_button"
  by (cases b) simp_all

subsection \<open>The loops of the checkerboard\<close>

lemma paint_cell_eq:
  "paint_cell i j p =
     \<lparr>pen = rect_pen (cell i j), brush = rect_brush (cell i j), drawn = drawn p @ [cell i j]\<rparr>"
  by (cases p)
     (auto simp: paint_cell_def drawRect_def setBrush_def setPen_def cell_def light_def dark_def
        mult.commute)

lemma fold_paint_cell:
  "js \<noteq> [] \<Longrightarrow> fold (\<lambda>j. paint_cell i j) js p =
     \<lparr>pen = rect_pen (cell i (last js)), brush = rect_brush (cell i (last js)),
      drawn = drawn p @ map (cell i) js\<rparr>"
proof (induction js arbitrary: p)
  case Nil
  then show ?case by simp
next
  case (Cons j js)
  show ?case
  proof (cases "js = []")
    case True
    then show ?thesis by (simp add: paint_cell_eq)
  next
    case False
    then show ?thesis using Cons.IH [of "paint_cell i j p"] by (simp add: paint_cell_eq)
  qed
qed

lemma drawn_fold_rows:
  "js \<noteq> [] \<Longrightarrow> drawn (fold (\<lambda>i. fold (\<lambda>j. paint_cell i j) js) is p) =
     drawn p @ concat (map (\<lambda>i. map (cell i) js) is)"
  by (induction "is" arbitrary: p) (simp_all add: fold_paint_cell)

lemma py_range_height: "py_range (height div 4) = [0, 1, 2, 3, 4, 5]"
  by (simp add: py_range_def height_def upt_conv_Cons)

lemma drawn_checkerboard:
  "drawn (paintEvent None) =
     concat (map (\<lambda>i. map (cell i) [0, 1, 2, 3, 4, 5]) [0, 1, 2, 3, 4, 5])"
proof -
  have "drawn (fold (\<lambda>i. fold (\<lambda>j. paint_cell i j) [0, 1, 2, 3, 4, 5]) [0, 1, 2, 3, 4, 5]
          new_QPainter) =
      drawn new_QPainter @ concat (map (\<lambda>i. map (cell i) [0, 1, 2, 3, 4, 5]) [0, 1, 2, 3, 4, 5])"
    by (rule drawn_fold_rows) simp
  then show ?thesis
    by (simp only: paintEvent_def py_range_height option.case) (simp add: new_QPainter_def)
qed

lemma less_6: "(i::nat) < 6 \<Longrightarrow> i = 0 \<or> i = 1 \<or> i = 2 \<or> i = 3 \<or> i = 4 \<or> i = 5"
  by arith

subsection \<open>Rounding at the numbers the examples use\<close>

lemma float64_exact:
  "float64 0 = 0" "float64 1 = 1" "float64 255 = 255"
  "float64 (1 / 128) = 1 / 128" "float64 (255 / 128) = 255 / 128"
  by code_simp+

lemma float32_exact:
  "float32 0 = 0" "float32 1 = 1" "float32 255 = 255"
  by code_simp+

text \<open>
  The doubles nearest to \<open>1/255\<close>, \<open>3/255\<close> and \<open>85/255\<close> are below them, and
  their products with 255 round up to 1, 3 and 85.
\<close>

lemma float64_255ths:
  "float64 (1 / 255) = 282578800148737 / 72057594037927936"
  "float64 (1 / 85) = 847736400446211 / 72057594037927936"
  "float64 (1 / 3) = 6004799503160661 / 18014398509481984"
  by code_simp+

lemma float64_255ths_times:
  "float64 (72057594037927935 / 72057594037927936) = 1"
  "float64 (216172782113783805 / 72057594037927936) = 3"
  "float64 (1531223873305968555 / 18014398509481984) = 85"
  by code_simp+

section \<open>The claims\<close>

subsection \<open>C2: the slider shows the truncated brush size, clamped\<close>

text \<open>
  C2, as amended. For every finite brush size \<open>v\<close> of the layer, the inbound handler
  \<^verbatim>\<open>_on_brush_size_change\<close> returns and leaves the slider at
  \<open>clamp(int(v), 1, 40)\<close>, where \<open>int\<close> cuts the fractional part off towards zero; so
  \<open>0.4\<close> shows as 1, \<open>40.9\<close> as 40 and \<open>15\<close> as 15.
\<close>

theorem on_brush_size_change_slider:
  "brush_size (layer s) = Finite v \<Longrightarrow>
     raised (on_brush_size_change s) = None \<and>
     brushSizeSlider (state_of (on_brush_size_change s)) = np_clip (trunc v) 1 40 \<and>
     (v = 2 / 5 \<longrightarrow> brushSizeSlider (state_of (on_brush_size_change s)) = 1) \<and>
     (v = 409 / 10 \<longrightarrow> brushSizeSlider (state_of (on_brush_size_change s)) = 40) \<and>
     (v = 15 \<longrightarrow> brushSizeSlider (state_of (on_brush_size_change s)) = 15)"
proof -
  assume v: "brush_size (layer s) = Finite v"
  have r: "raised (on_brush_size_change s) = None"
    using v by (simp add: on_brush_size_change_eq)
  have b: "brushSizeSlider (state_of (on_brush_size_change s)) = np_clip (trunc v) 1 40"
    using v by (simp add: on_brush_size_change_eq enter_def)
  have e1: "np_clip (trunc (2 / 5)) 1 40 = 1"
    by (simp add: np_clip_def trunc_def floor_eq_iff)
  have e2: "np_clip (trunc (409 / 10)) 1 40 = 40"
    by (simp add: np_clip_def trunc_def floor_eq_iff)
  have e3: "np_clip (trunc 15) 1 40 = 15"
    by (simp add: np_clip_def trunc_def)
  show ?thesis
  proof (intro conjI impI)
    show "raised (on_brush_size_change s) = None" by (rule r)
    show "brushSizeSlider (state_of (on_brush_size_change s)) = np_clip (trunc v) 1 40" by (rule b)
    show "brushSizeSlider (state_of (on_brush_size_change s)) = 1" if "v = 2 / 5"
      unfolding b that by (rule e1)
    show "brushSizeSlider (state_of (on_brush_size_change s)) = 40" if "v = 409 / 10"
      unfolding b that by (rule e2)
    show "brushSizeSlider (state_of (on_brush_size_change s)) = 15" if "v = 15"
      unfolding b that by (rule e3)
  qed
qed

text \<open>
  The theorem at the constructed panel, after the layer's brush size became \<open>40.9\<close>: the
  slider shows 40.
\<close>

theorem on_brush_size_change_slider_witness:
  "brush_size (layer (example_panel\<lparr>layer := example_layer\<lparr>brush_size := Finite (409 / 10)\<rparr>\<rparr>))
     = Finite (409 / 10) \<and>
   brushSizeSlider (state_of (on_brush_size_change
      (example_panel\<lparr>layer := example_layer\<lparr>brush_size := Finite (409 / 10)\<rparr>\<rparr>))) = 40"
  using on_brush_size_change_slider
    [of "example_panel\<lparr>layer := example_layer\<lparr>brush_size := Finite (409 / 10)\<rparr>\<rparr>" "409 / 10"]
  by simp

text \<open>
  C2 as stated fails: at the brush size \<open>1.75\<close> the handler leaves the slider at 1,
  and \<open>clamp(round-to-int(1.75), 1, 40)\<close> is 2.
\<close>

theorem on_brush_size_change_round_counterexample:
  "brushSizeSlider (state_of (on_brush_size_change
      (example_panel\<lparr>layer := example_layer\<lparr>brush_size := Finite (7 / 4)\<rparr>\<rparr>))) = 1
   \<and> spec_slider_display (7 / 4) = 2"
  by (simp add: on_brush_size_change_eq example_layer_def example_panel_eq
       np_clip_def trunc_def spec_slider_display_def round_def floor_eq_iff)

subsection \<open>C10: the spin box receives the truncated label\<close>

text \<open>
  C10, as amended. For every finite value \<open>q\<close> of the layer's \<^verbatim>\<open>selected_label\<close>,
  an integer or not, whose \<^verbatim>\<open>int(q)\<close> fits the C \<^verbatim>\<open>int\<close> that \<^verbatim>\<open>setValue\<close>
  takes, \<^verbatim>\<open>_on_selection_change\<close> returns and passes \<^verbatim>\<open>int(selected_label)\<close> to
  the spin box, which keeps it within its range from 0 to 2147483647. \<^verbatim>\<open>int\<close> is
  truncation towards zero, not rounding: its magnitude is the integer part of the
  magnitude of \<open>q\<close> and its sign is that of \<open>q\<close>. So when \<^verbatim>\<open>int(q)\<close> is not
  negative the spin box shows \<^verbatim>\<open>int(q)\<close>, and the label \<open>2.7\<close> shows as 2; when
  \<^verbatim>\<open>int(q)\<close> is negative the spin box shows 0.
\<close>

theorem on_selection_change_truncates:
  "selected_label (layer s) = Finite q \<Longrightarrow>
   - 2147483648 \<le> trunc q \<Longrightarrow> trunc q \<le> 2147483647 \<Longrightarrow>
     raised (on_selection_change s) = None \<and>
     selectionSpinBox (state_of (on_selection_change s)) = QSpinBox_bound (trunc q) \<and>
     \<bar>of_int (trunc q)\<bar> \<le> \<bar>q\<bar> \<and> \<bar>q\<bar> < \<bar>of_int (trunc q) :: rat\<bar> + 1 \<and>
     (0 \<le> q \<longrightarrow> 0 \<le> trunc q) \<and> (q \<le> 0 \<longrightarrow> trunc q \<le> 0) \<and>
     (0 \<le> trunc q \<longrightarrow> selectionSpinBox (state_of (on_selection_change s)) = trunc q) \<and>
     (trunc q < 0 \<longrightarrow> selectionSpinBox (state_of (on_selection_change s)) = 0) \<and>
     (q = 27 / 10 \<longrightarrow> selectionSpinBox (state_of (on_selection_change s)) = 2)"
proof -
  assume q: "selected_label (layer s) = Finite q"
    and lo: "- 2147483648 \<le> trunc q" and hi: "trunc q \<le> 2147483647"
  have r: "raised (on_selection_change s) = None"
    using q lo hi by (simp add: on_selection_change_eq fits_C_int_def)
  have b: "selectionSpinBox (state_of (on_selection_change s)) = QSpinBox_bound (trunc q)"
    using q lo hi by (simp add: on_selection_change_eq fits_C_int_def enter_def)
  have e: "QSpinBox_bound (trunc (27 / 10)) = 2"
    by (simp add: QSpinBox_bound_def trunc_def floor_eq_iff)
  show ?thesis
  proof (intro conjI impI)
    show "raised (on_selection_change s) = None" by (rule r)
    show "selectionSpinBox (state_of (on_selection_change s)) = QSpinBox_bound (trunc q)" by (rule b)
    show "\<bar>of_int (trunc q)\<bar> \<le> \<bar>q\<bar>" using trunc_towards_zero [of q] by blast
    show "\<bar>q\<bar> < \<bar>of_int (trunc q) :: rat\<bar> + 1" using trunc_towards_zero [of q] by blast
    show "0 \<le> trunc q" if "0 \<le> q" using trunc_towards_zero [of q] that by blast
    show "trunc q \<le> 0" if "q \<le> 0" using trunc_towards_zero [of q] that by blast
    show "selectionSpinBox (state_of (on_selection_change s)) = trunc q" if "0 \<le> trunc q"
      unfolding b using that hi by (simp add: QSpinBox_bound_def)
    show "selectionSpinBox (state_of (on_selection_change s)) = 0" if "trunc q < 0"
      unfolding b using that by (simp add: QSpinBox_bound_def)
    show "selectionSpinBox (state_of (on_selection_change s)) = 2" if "q = 27 / 10"
      unfolding b that by (rule e)
  qed
qed

text \<open>
  The theorem at the constructed panel, after the layer's label became \<open>2.7\<close>: the spin
  box shows 2, where rounding would give 3.
\<close>

theorem on_selection_change_truncates_witness:
  "selected_label (layer (example_panel\<lparr>layer := example_layer\<lparr>selected_label := Finite (27 / 10)\<rparr>\<rparr>))
     = Finite (27 / 10) \<and>
   trunc (27 / 10) = 2 \<and>
   selectionSpinBox (state_of (on_selection_change
      (example_panel\<lparr>layer := example_layer\<lparr>selected_label := Finite (27 / 10)\<rparr>\<rparr>))) = 2 \<and>
   round (27 / 10 :: rat) = 3"
proof -
  have t: "trunc (27 / 10) = 2"
    by (simp add: trunc_def floor_eq_iff)
  show ?thesis
    using on_selection_change_truncates
      [of "example_panel\<lparr>layer := example_layer\<lparr>selected_label := Finite (27 / 10)\<rparr>\<rparr>" "27 / 10"]
    by (simp add: t round_def floor_eq_iff)
qed

text \<open>
  C10 as stated fails, for it speaks of every value. On the constructed panel, whose
  spin box shows 0: at the label \<open>-3.7\<close> the spin box holds 0 and \<^verbatim>\<open>int\<close> of the
  label is \<open>-3\<close>; at the label \<^verbatim>\<open>nan\<close> the handler raises \<^verbatim>\<open>ValueError\<close>; at the
  label \<open>2147483648\<close> the spin box still holds 0.
\<close>

theorem on_selection_change_every_value_counterexample:
  "selectionSpinBox (state_of (on_selection_change
      (example_panel\<lparr>layer := example_layer\<lparr>selected_label := Finite (- 37 / 10)\<rparr>\<rparr>))) = 0 \<and>
   trunc (- 37 / 10) = - 3 \<and>
   raised (on_selection_change (example_panel\<lparr>layer := example_layer\<lparr>selected_label := NaN\<rparr>\<rparr>))
     = Some (ValueError ''cannot convert float NaN to integer'') \<and>
   selectionSpinBox (state_of (on_selection_change
      (example_panel\<lparr>layer := example_layer\<lparr>selected_label := Finite 2147483648\<rparr>\<rparr>))) = 0 \<and>
   trunc 2147483648 = 2147483648"
  by (simp add: on_selection_change_eq example_panel_eq example_layer_def enter_def
      QSpinBox_bound_def fits_C_int_def trunc_def ceiling_eq_iff)

subsection \<open>C3: the round trip of the selected label\<close>




subsection \<open>C1: a recognized mode checks its button and no other\<close>

text \<open>
  C1. For each of the four recognized modes, \<^verbatim>\<open>_on_mode_change\<close> on an event that
  carries the mode returns, and afterwards a mode button is checked exactly when it is
  the button of that mode: one of the four buttons is checked and three are not.
\<close>

theorem on_mode_change_checks_one:
  "m \<in> {PAN_ZOOM, PICKER, PAINT, FILL} \<Longrightarrow>
     raised (on_mode_change \<lparr>event_mode = m\<rparr> s) = None \<and>
     (\<forall>b. checked (buttons (state_of (on_mode_change \<lparr>event_mode = m\<rparr> s)) b) =
          (button_mode b = m)) \<and>
     length (filter (\<lambda>b. checked (buttons (state_of (on_mode_change \<lparr>event_mode = m\<rparr> s)) b))
              [panzoom_button, pick_button, paint_button, fill_button]) = 1 \<and>
     length (filter (\<lambda>b. \<not> checked (buttons (state_of (on_mode_change \<lparr>event_mode = m\<rparr> s)) b))
              [panzoom_button, pick_button, paint_button, fill_button]) = 3"
proof -
  assume m: "m \<in> {PAN_ZOOM, PICKER, PAINT, FILL}"
  have c: "checked (buttons (state_of (on_mode_change \<lparr>event_mode = m\<rparr> s)) b) =
      (button_mode b = m)" for b
    using m button_attr_cases [of b]
    by (auto simp: on_mode_change_def setChecked_def button_group_def)
  have r: "raised (on_mode_change \<lparr>event_mode = m\<rparr> s) = None"
    using m by (auto simp: on_mode_change_def)
  show ?thesis
    using m by (auto simp: c r)
qed

text \<open>The theorem at the constructed panel and the mode \<open>PAINT\<close>.\<close>

theorem on_mode_change_checks_one_witness:
  "PAINT \<in> {PAN_ZOOM, PICKER, PAINT, FILL} \<and>
   map (\<lambda>b. checked (buttons (state_of (on_mode_change \<lparr>event_mode = PAINT\<rparr> example_panel)) b))
     [panzoom_button, pick_button, paint_button, fill_button] = [False, False, True, False]"
  using on_mode_change_checks_one [of PAINT example_panel]
  by simp

subsection \<open>C4: any other mode raises\<close>

text \<open>
  C4. On a mode that is none of the four recognized ones, \<^verbatim>\<open>_on_mode_change\<close> raises
  \<^verbatim>\<open>ValueError\<close> and leaves the panel as it was, so no button is selected instead;
  on each of the four recognized modes it does not raise.
\<close>

theorem on_mode_change_raises:
  "(m \<notin> {PAN_ZOOM, PICKER, PAINT, FILL} \<longrightarrow>
      on_mode_change \<lparr>event_mode = m\<rparr> s = Raised (ValueError ''Mode not recognized'') s) \<and>
   (m \<in> {PAN_ZOOM, PICKER, PAINT, FILL} \<longrightarrow>
      raised (on_mode_change \<lparr>event_mode = m\<rparr> s) = None)"
  by (auto simp: on_mode_change_def)

text \<open>The theorem at the constructed panel: a fifth mode raises, \<open>FILL\<close> does not.\<close>

theorem on_mode_change_raises_witness:
  "Unrecognized ''ERASE'' \<notin> {PAN_ZOOM, PICKER, PAINT, FILL} \<and>
   on_mode_change \<lparr>event_mode = Unrecognized ''ERASE''\<rparr> example_panel
     = Raised (ValueError ''Mode not recognized'') example_panel \<and>
   FILL \<in> {PAN_ZOOM, PICKER, PAINT, FILL} \<and>
   raised (on_mode_change \<lparr>event_mode = FILL\<rparr> example_panel) = None"
  using on_mode_change_raises [of "Unrecognized ''ERASE''" example_panel]
    on_mode_change_raises [of FILL example_panel]
  by simp

subsection \<open>C7: a layer that is not editable disables three buttons\<close>

text \<open>
  C7. After \<^verbatim>\<open>_on_editable_change\<close> ran with \<^verbatim>\<open>layer.editable\<close> false, the pick,
  paint and fill buttons are disabled and the pan/zoom button is as it was; after it ran
  again with \<^verbatim>\<open>layer.editable\<close> true, the three buttons are enabled and the pan/zoom
  button is still as it was.
\<close>

theorem on_editable_change_buttons:
  "(let s1 = state_of (on_editable_change (set_editable False s));
        s2 = state_of (on_editable_change (set_editable True s1))
    in raised (on_editable_change (set_editable False s)) = None \<and>
       raised (on_editable_change (set_editable True s1)) = None \<and>
       \<not> enabled (buttons s1 pick_button) \<and>
       \<not> enabled (buttons s1 paint_button) \<and>
       \<not> enabled (buttons s1 fill_button) \<and>
       buttons s1 panzoom_button = buttons s panzoom_button \<and>
       enabled (buttons s2 pick_button) \<and>
       enabled (buttons s2 paint_button) \<and>
       enabled (buttons s2 fill_button) \<and>
       buttons s2 panzoom_button = buttons s panzoom_button)"
  by (simp add: on_editable_change_def set_editable_def)

text \<open>
  The theorem at the constructed panel, whose four buttons are enabled: the pan/zoom
  button stays enabled while the other three are disabled.
\<close>

theorem on_editable_change_buttons_witness:
  "map (\<lambda>b. enabled (buttons (state_of (on_editable_change (set_editable False example_panel))) b))
     [panzoom_button, pick_button, paint_button, fill_button] = [True, False, False, False]"
  using on_editable_change_buttons [of example_panel]
  by (simp add: Let_def example_panel_eq)

subsection \<open>C8: pointer movement sets the status\<close>

text \<open>
  C8. \<^verbatim>\<open>mouseMoveEvent\<close>, on any event, returns with the layer's status equal to the
  string form of the layer's mode, and with nothing else changed: putting the old status
  back gives the state before the call.
\<close>

theorem mouseMoveEvent_status:
  "raised (mouseMoveEvent str event s) = None \<and>
   status (layer (state_of (mouseMoveEvent str event s))) = str (mode (layer s)) \<and>
   (state_of (mouseMoveEvent str event s))
     \<lparr>layer := (layer (state_of (mouseMoveEvent str event s)))\<lparr>status := status (layer s)\<rparr>\<rparr> = s"
  by (simp add: mouseMoveEvent_def)

text \<open>The theorem at the constructed panel, with a string form that names the mode.\<close>

theorem mouseMoveEvent_status_witness:
  "status (layer (state_of (mouseMoveEvent
      (\<lambda>m. if m = PAN_ZOOM then ''pan_zoom'' else ''other'') () example_panel))) = ''pan_zoom''"
  using mouseMoveEvent_status
    [of "\<lambda>m. if m = PAN_ZOOM then ''pan_zoom'' else ''other''" "()" example_panel]
  by (simp add: example_panel_eq example_layer_def)

subsection \<open>C9: only the fully checked state sets the flag\<close>

text \<open>
  C9. For every state value the check box hands to \<^verbatim>\<open>change_contig\<close> and
  \<^verbatim>\<open>change_ndim\<close>, the handler returns and the layer's \<^verbatim>\<open>contiguous\<close> (or
  \<^verbatim>\<open>n_dimensional\<close>) is then true exactly when the state is \<^verbatim>\<open>Qt.Checked\<close>; the
  partially checked state sets it to false.
\<close>

theorem change_contig_ndim_checked:
  "raised (change_contig state s) = None \<and>
   contiguous (layer (state_of (change_contig state s))) = (state = Qt_Checked) \<and>
   raised (change_ndim state s) = None \<and>
   n_dimensional (layer (state_of (change_ndim state s))) = (state = Qt_Checked) \<and>
   \<not> contiguous (layer (state_of (change_contig Qt_PartiallyChecked s))) \<and>
   \<not> n_dimensional (layer (state_of (change_ndim Qt_PartiallyChecked s)))"
  by (simp add: change_contig.simps change_ndim.simps on_contig_change_eq on_n_dim_change_eq
      enter_def emitter_defs Qt_Checked_def Qt_PartiallyChecked_def)

text \<open>
  The theorem at the constructed panel, whose layer is contiguous and not n-dimensional:
  the unchecked state clears the first flag, the checked state sets the second.
\<close>

theorem change_contig_ndim_checked_witness:
  "contiguous (layer example_panel) \<and>
   \<not> contiguous (layer (state_of (change_contig Qt_Unchecked example_panel))) \<and>
   \<not> n_dimensional (layer example_panel) \<and>
   n_dimensional (layer (state_of (change_ndim Qt_Checked example_panel)))"
  using change_contig_ndim_checked [of Qt_Unchecked example_panel]
    change_contig_ndim_checked [of Qt_Checked example_panel]
  by (simp add: example_panel_eq example_layer_def Qt_Checked_def Qt_Unchecked_def)

subsection \<open>C5: the solid swatch\<close>

text \<open>
  C5, as amended. When the layer has a selected colour, with channels between 0 and 1,
  \<^verbatim>\<open>paintEvent\<close> draws one rectangle over the whole swatch, with pen and brush of the
  colour whose channels are the float products \<open>255 \<times> channel\<close>, each the exact product
  rounded to the format of the array, with the fractional part cut off (not rounded to
  the nearest integer). In a format that holds 255 and 0, the colour \<open>(1.0, 0.0, 0.0)\<close>
  gives the channels \<open>(255, 0, 0)\<close>.
\<close>

theorem paintEvent_solid:
  "\<forall>x \<in> set (items c). 0 \<le> x \<and> x \<le> 1 \<Longrightarrow>
   paintEvent (Some c) =
     \<lparr>pen = QColor (map (\<lambda>x. trunc (dtype_round c (255 * x))) (items c)),
      brush = Some (QColor (map (\<lambda>x. trunc (dtype_round c (255 * x))) (items c))),
      drawn = [\<lparr>rect_pen = QColor (map (\<lambda>x. trunc (dtype_round c (255 * x))) (items c)),
                rect_brush = Some (QColor (map (\<lambda>x. trunc (dtype_round c (255 * x))) (items c))),
                rect_x = 0, rect_y = 0, rect_w = 24, rect_h = 24\<rparr>]\<rparr> \<and>
   (items c = [1, 0, 0] \<longrightarrow> dtype_round c 255 = 255 \<longrightarrow> dtype_round c 0 = 0 \<longrightarrow>
      map rect_pen (drawn (paintEvent (Some c))) = [QColor [255, 0, 0]] \<and>
      map rect_brush (drawn (paintEvent (Some c))) = [Some (QColor [255, 0, 0])])"
  by (simp add: paintEvent_def drawRect_def setBrush_def setPen_def new_QPainter_def
      astype_int_def scalar_times_def height_def trunc_def comp_def)

text \<open>
  The theorem at three arrays: the colour \<open>(1.0, 0.0, 0.0)\<close> gives \<open>(255, 0, 0)\<close>
  as doubles and as single floats, and the colour of the doubles nearest to
  \<open>(1/255, 3/255, 85/255)\<close> gives \<open>(1, 3, 85)\<close>, because the three float products
  are 1, 3 and 85 although the exact products are below them.
\<close>

theorem paintEvent_solid_witness:
  "map rect_pen (drawn (paintEvent (Some (float64_array [1, 0, 0])))) = [QColor [255, 0, 0]] \<and>
   map rect_brush (drawn (paintEvent (Some (float64_array [1, 0, 0])))) = [Some (QColor [255, 0, 0])] \<and>
   map rect_pen (drawn (paintEvent (Some (float32_array [1, 0, 0])))) = [QColor [255, 0, 0]] \<and>
   map rect_pen (drawn (paintEvent (Some (float64_array [1 / 255, 3 / 255, 85 / 255]))))
     = [QColor [1, 3, 85]]"
  using paintEvent_solid [of "float64_array [1, 0, 0]"]
    paintEvent_solid [of "float32_array [1, 0, 0]"]
    paintEvent_solid [of "float64_array [1 / 255, 3 / 255, 85 / 255]"]
  by (simp add: float64_array_def float32_array_def float64_exact float32_exact float64_255ths
      float64_255ths_times trunc_def floor_eq_iff)

text \<open>
  C5 as stated fails: for the array of doubles \<open>(1/128, 0, 0)\<close> the swatch has the
  channels \<open>(1, 0, 0)\<close>, and \<open>round(255 \<times> channel)\<close> gives \<open>(2, 0, 0)\<close>.
\<close>

theorem paintEvent_round_counterexample:
  "items (float64_array [1 / 128, 0, 0]) = [1 / 128, 0, 0] \<and>
   map rect_pen (drawn (paintEvent (Some (float64_array [1 / 128, 0, 0])))) = [QColor [1, 0, 0]] \<and>
   spec_channels (items (float64_array [1 / 128, 0, 0])) = [2, 0, 0]"
  by (simp add: paintEvent_def drawRect_def setBrush_def setPen_def new_QPainter_def
      astype_int_def scalar_times_def float64_array_def float64_exact height_def trunc_def
      spec_channels_def round_def floor_eq_iff)

subsection \<open>C6: the checkerboard\<close>

text \<open>
  C6. When the layer has no selected colour, \<^verbatim>\<open>paintEvent\<close> draws 36 rectangles, one
  for each cell \<open>(i, j)\<close> of a 6 by 6 grid, in the order of the loops: the rectangle of
  the cell \<open>(i, j)\<close> is at \<open>(4i, 4j)\<close>, and its pen and brush are the light colour
  when \<open>i\<close> and \<open>j\<close> have the same parity and the dark colour otherwise. No other
  colour is used.
\<close>

theorem paintEvent_checkerboard:
  "i < 6 \<Longrightarrow> j < 6 \<Longrightarrow>
     length (drawn (paintEvent None)) = 36 \<and>
     drawn (paintEvent None) ! (6 * i + j) =
       \<lparr>rect_pen = (if even i = even j then QColor [230, 230, 230] else QColor [25, 25, 25]),
        rect_brush = Some (if even i = even j then QColor [230, 230, 230] else QColor [25, 25, 25]),
        rect_x = 4 * int i, rect_y = 4 * int j, rect_w = 5, rect_h = 5\<rparr> \<and>
     set (map rect_pen (drawn (paintEvent None))) = {QColor [230, 230, 230], QColor [25, 25, 25]}"
proof -
  assume i: "i < 6" and j: "j < 6"
  have l: "length (drawn (paintEvent None)) = 36"
    by (simp add: drawn_checkerboard)
  have n: "drawn (paintEvent None) ! (6 * i + j) = cell (int i) (int j)"
    using less_6 [OF i] less_6 [OF j]
    by (elim disjE) (simp_all add: drawn_checkerboard)
  have c: "(int i mod 2 = int j mod 2) = (even i = even j)"
    by presburger
  have s: "set (map rect_pen (drawn (paintEvent None))) = {light, dark}"
    by (auto simp add: drawn_checkerboard cell_def)
  show ?thesis
    using l n s c by (simp add: cell_def light_def dark_def)
qed

text \<open>The theorem at the cells \<open>(2, 3)\<close>, which is dark, and \<open>(3, 5)\<close>, which is light.\<close>

theorem paintEvent_checkerboard_witness:
  "(2::nat) < 6 \<and> (3::nat) < 6 \<and> (5::nat) < 6 \<and>
   rect_pen (drawn (paintEvent None) ! 15) = QColor [25, 25, 25] \<and>
   rect_x (drawn (paintEvent None) ! 15) = 8 \<and> rect_y (drawn (paintEvent None) ! 15) = 12 \<and>
   rect_pen (drawn (paintEvent None) ! 23) = QColor [230, 230, 230]"
  using paintEvent_checkerboard [of 2 3] paintEvent_checkerboard [of 3 5]
  by simp

end
